theory Spec2Isabelle
  imports
    Complex_Main
    "HOL-Library.Sublist"
    "HOL-Library.Char_ord"
    "HOL-Library.List_Lexorder"
    "HOL-Library.Multiset"
    "HOL-Library.Log_Nat"
begin

section \<open>Values\<close>

text \<open>
  The tools of \<^verbatim>\<open>pharma_data.py\<close> exchange JSON documents whose leaves are scalars.
  A scalar is \<^verbatim>\<open>None\<close>, a boolean, an integer, a float, or a string. A float is kept as
  the rational number it denotes (every finite double is one); an operation on floats
  is the exact operation followed by \<open>double\<close>, the rounding to the nearest double defined
  below. The non-finite values (NaN, infinities) have no counterpart here, and the
  exponent of a double is not bounded. Strings are lists of characters with codes
  below 256.
\<close>

datatype cell = CNone | CBool bool | CInt int | CFloat rat | CStr string

text \<open>Python truthiness, as used by \<^verbatim>\<open>if x:\<close> and \<^verbatim>\<open>a and b\<close>.\<close>

fun truthy :: "cell \<Rightarrow> bool" where
  "truthy CNone = False"
| "truthy (CBool b) = b"
| "truthy (CInt i) = (i \<noteq> 0)"
| "truthy (CFloat q) = (q \<noteq> 0)"
| "truthy (CStr s) = (s \<noteq> [])"

text \<open>The numeric value of a scalar; booleans count as 0 and 1, as in Python.\<close>

fun num_of :: "cell \<Rightarrow> rat option" where
  "num_of (CBool b) = Some (if b then 1 else 0)"
| "num_of (CInt i) = Some (of_int i)"
| "num_of (CFloat q) = Some q"
| "num_of CNone = None"
| "num_of (CStr s) = None"

text \<open>Python's \<^verbatim>\<open>==\<close> on scalars: numbers compare by value, everything else structurally.\<close>

definition py_eq :: "cell \<Rightarrow> cell \<Rightarrow> bool" where
  "py_eq a b =
     (case (num_of a, num_of b) of
        (Some x, Some y) \<Rightarrow> x = y
      | (None, None) \<Rightarrow> a = b
      | _ \<Rightarrow> False)"

datatype json = JVal cell | JArr "json list" | JObj "(string \<times> json) list"

abbreviation JS :: "string \<Rightarrow> json" where
  "JS s \<equiv> JVal (CStr s)"

text \<open>\<^verbatim>\<open>d.get(k)\<close> on a parsed document.\<close>

fun jget :: "string \<Rightarrow> json \<Rightarrow> json option" where
  "jget k (JObj kvs) = map_of kvs k"
| "jget k (JVal v) = None"
| "jget k (JArr xs) = None"

text \<open>A record of a table: column name to scalar, in column order.\<close>

type_synonym row_dict = "(string \<times> cell) list"

definition json_of_record :: "row_dict \<Rightarrow> json" where
  "json_of_record r = JObj (map (\<lambda>(k, v). (k, JVal v)) r)"

fun cell_of_json :: "json \<Rightarrow> cell" where
  "cell_of_json (JVal v) = v"
| "cell_of_json (JArr xs) = CNone"
| "cell_of_json (JObj kvs) = CNone"

fun record_of_json :: "json \<Rightarrow> row_dict" where
  "record_of_json (JObj kvs) = map (\<lambda>(k, j). (k, cell_of_json j)) kvs"
| "record_of_json (JVal v) = []"
| "record_of_json (JArr xs) = []"

text \<open>
  The list a caller iterates after \<^verbatim>\<open>json.loads\<close>: the value of \<^verbatim>\<open>"results"\<close> when
  the key is present and the list is not empty, no record otherwise.
\<close>

definition results_of :: "json \<Rightarrow> row_dict list" where
  "results_of doc =
     (case jget ''results'' doc of
        Some (JArr rs) \<Rightarrow> map record_of_json rs
      | _ \<Rightarrow> [])"

section \<open>Floating point\<close>

text \<open>Rounding to the nearest integer, a tie going to the even neighbour.\<close>

definition round_half_even :: "rat \<Rightarrow> int" where
  "round_half_even x =
     (let f = \<lfloor>x\<rfloor>; d = x - of_int f
      in if d < 1 / 2 then f else if 1 / 2 < d then f + 1
         else if even f then f else f + 1)"

definition pow2 :: "int \<Rightarrow> rat" where
  "pow2 s = (if 0 \<le> s then 2 ^ nat s else 1 / 2 ^ nat (- s))"

text \<open>
  The binary exponent \<open>e\<close> of a non-zero rational, \<open>2\<^sup>e \<le> |q| < 2\<^sup>e\<^sup>+\<^sup>1\<close>, found from the bit
  lengths of numerator and denominator.
\<close>

definition exponent :: "rat \<Rightarrow> int" where
  "exponent q =
     (case quotient_of q of
        (a, b) \<Rightarrow>
          (let e0 = bitlen \<bar>a\<bar> - bitlen b
           in if pow2 e0 \<le> \<bar>q\<bar> then e0 else e0 - 1))"

text \<open>
  The double nearest to a rational: 53 significant bits, ties to even. This is the
  result of float division, multiplication and addition applied to the exact result,
  and of converting an integer or a decimal literal to a float.
\<close>

definition double :: "rat \<Rightarrow> rat" where
  "double q =
     (if q = 0 then 0
      else let s = exponent q - 52
           in sgn q * of_int (round_half_even (\<bar>q\<bar> / pow2 s)) * pow2 s)"

text \<open>
  \<^verbatim>\<open>round(x, n)\<close> on a float: the decimal with \<open>n\<close> places nearest to the exact value of
  \<open>x\<close>, a tie going to the even neighbour, converted back to a double.
\<close>

definition round_to :: "nat \<Rightarrow> rat \<Rightarrow> rat" where
  "round_to n x = of_int (round_half_even (x * 10 ^ n)) / 10 ^ n"

definition py_round :: "nat \<Rightarrow> rat \<Rightarrow> rat" where
  "py_round n x = double (round_to n x)"

section \<open>Tables and the data directory\<close>

text \<open>
  A data frame as \<^verbatim>\<open>pd.read_csv\<close> returns it: the column names and the rows, each row
  holding one scalar per column. A file found under the data directory carries what the
  code reads from its path object (\<^verbatim>\<open>str(f)\<close>, \<^verbatim>\<open>f.name\<close>, \<^verbatim>\<open>f.stem\<close>) and the outcome
  of reading it: the frame, or the text of the exception raised. The directory gives
  \<^verbatim>\<open>Path(data_dir).exists()\<close> and, for each glob pattern, the files \<^verbatim>\<open>rglob\<close> yields
  in order.
\<close>

record dataframe =
  df_columns :: "string list"
  df_rows :: "cell list list"

record csv_file =
  file_path :: string
  file_name :: string
  file_stem :: string
  file_frame :: "string + dataframe"

record data_dir =
  dir_str :: string
  dir_exists :: bool
  rglob :: "string \<Rightarrow> csv_file list"

datatype filter_val = Scalar cell | Coll "cell list"

type_synonym filters = "(string \<times> filter_val) list"

text \<open>\<^verbatim>\<open>df.to_dict('records')\<close>.\<close>

definition row_record :: "dataframe \<Rightarrow> cell list \<Rightarrow> row_dict" where
  "row_record df r = zip (df_columns df) r"

definition to_dict_records :: "dataframe \<Rightarrow> row_dict list" where
  "to_dict_records df = map (row_record df) (df_rows df)"

text \<open>
  Element-wise comparison of a column with a scalar (\<^verbatim>\<open>df[col] == val\<close>) and membership
  (\<^verbatim>\<open>df[col].isin(val)\<close>). A missing entry equals nothing; \<^verbatim>\<open>isin\<close> finds a missing entry
  when the collection holds one.
\<close>

definition eq_cell :: "cell \<Rightarrow> cell \<Rightarrow> bool" where
  "eq_cell c v = (c \<noteq> CNone \<and> v \<noteq> CNone \<and> py_eq c v)"

definition isin_cell :: "cell \<Rightarrow> cell list \<Rightarrow> bool" where
  "isin_cell c vs = (\<exists>v \<in> set vs. py_eq c v)"

fun cell_matches :: "filter_val \<Rightarrow> cell \<Rightarrow> bool" where
  "cell_matches (Coll vs) c = isin_cell c vs"
| "cell_matches (Scalar v) c = eq_cell c v"

definition row_matches :: "string \<Rightarrow> filter_val \<Rightarrow> row_dict \<Rightarrow> bool" where
  "row_matches col val r =
     (case map_of r col of None \<Rightarrow> False | Some c \<Rightarrow> cell_matches val c)"

definition filter_rows :: "dataframe \<Rightarrow> string \<Rightarrow> filter_val \<Rightarrow> dataframe" where
  "filter_rows df col val =
     df\<lparr>df_rows := filter (\<lambda>r. row_matches col val (row_record df r)) (df_rows df)\<rparr>"

text \<open>
  The filter loop of \<^verbatim>\<open>query_data_source\<close>: keys are visited in the order of the
  dictionary; the first key that is not a column ends the loop with that key.
\<close>

fun apply_filters :: "dataframe \<Rightarrow> filters \<Rightarrow> string + dataframe" where
  "apply_filters df [] = Inr df"
| "apply_filters df ((col, val) # rest) =
     (if col \<in> set (df_columns df) then apply_filters (filter_rows df col val) rest
      else Inl col)"

text \<open>
  \<^verbatim>\<open>df.head(n)\<close>: the first \<open>n\<close> rows; for a negative \<open>n\<close>, all rows but the last \<open>-n\<close>.
\<close>

definition head :: "dataframe \<Rightarrow> int \<Rightarrow> dataframe" where
  "head df n =
     df\<lparr>df_rows :=
          (if 0 \<le> n then take (nat n) (df_rows df)
           else take (length (df_rows df) - nat (- n)) (df_rows df))\<rparr>"

text \<open>\<^verbatim>\<open>str.lower\<close> on characters with codes below 256.\<close>

definition lower_char :: "char \<Rightarrow> char" where
  "lower_char c =
     (let n = (of_char c :: nat)
      in if (65 \<le> n \<and> n \<le> 90) \<or> (192 \<le> n \<and> n \<le> 214) \<or> (216 \<le> n \<and> n \<le> 222)
         then char_of (n + 32) else c)"

definition lower :: "string \<Rightarrow> string" where
  "lower s = map lower_char s"

text \<open>
  Name resolution: the files matching the exact name; when there is none, the files
  whose stem contains the source name, case-insensitively; the first of them is read.
\<close>

definition find_csv :: "data_dir \<Rightarrow> string \<Rightarrow> csv_file list" where
  "find_csv fs source_name =
     (let csv_name = (if suffix ''.csv'' source_name then source_name
                      else source_name @ ''.csv'');
          csv_files = rglob fs csv_name
      in if csv_files = []
         then filter (\<lambda>f. sublist (lower source_name) (lower (file_stem f))) (rglob fs ''*.csv'')
         else csv_files)"

text \<open>The items the filter loop visits: none for \<^verbatim>\<open>None\<close> and for the empty dictionary.\<close>

definition filter_items :: "filters option \<Rightarrow> filters" where
  "filter_items filters = (case filters of None \<Rightarrow> [] | Some fl \<Rightarrow> fl)"

definition quote :: "string \<Rightarrow> string" where
  "quote s = [CHR 0x27] @ s @ [CHR 0x27]"

definition query_data_source ::
  "data_dir \<Rightarrow> string \<Rightarrow> filters option \<Rightarrow> int option \<Rightarrow> json" where
  "query_data_source fs source_name filters limit =
     (if \<not> dir_exists fs
      then JObj [(''error'', JS (''Data directory not found: '' @ dir_str fs)),
                 (''results'', JArr [])]
      else
        (case find_csv fs source_name of
           [] \<Rightarrow>
             JObj [(''error'', JS (''No CSV file found matching: '' @ source_name)),
                   (''searched_in'', JS (dir_str fs)),
                   (''results'', JArr [])]
         | f # _ \<Rightarrow>
             (case file_frame f of
                Inl msg \<Rightarrow>
                  JObj [(''error'', JS (''Error querying data source: '' @ msg)),
                        (''results'', JArr [])]
              | Inr df \<Rightarrow>
                  (case apply_filters df (filter_items filters) of
                     Inl col \<Rightarrow>
                       JObj [(''error'',
                                JS (''Column '' @ quote col @ '' not found in '' @ file_name f)),
                             (''available_columns'', JArr (map JS (df_columns df))),
                             (''results'', JArr [])]
                   | Inr df1 \<Rightarrow>
                       (let df2 = (case limit of
                                     None \<Rightarrow> df1
                                   | Some n \<Rightarrow> if n \<noteq> 0 then head df1 n else df1);
                            results = to_dict_records df2
                        in JObj [(''source_file'', JS (file_path f)),
                                 (''total_records'', JVal (CInt (int (length results)))),
                                 (''columns'', JArr (map JS (df_columns df2))),
                                 (''results'', JArr (map json_of_record results))])))))"

text \<open>
  The reference for filtering: the records of the table that satisfy every filter, in the
  table's row order.
\<close>

definition filtered_records :: "dataframe \<Rightarrow> filters \<Rightarrow> row_dict list" where
  "filtered_records df fl =
     filter (\<lambda>r. list_all (\<lambda>(col, val). row_matches col val r) fl) (to_dict_records df)"

section \<open>Library behaviour taken as a parameter\<close>

text \<open>
  Three results are produced by the Python runtime in a way this code does not fix: the
  text of a float inside an f-string, the message of the \<^verbatim>\<open>TypeError\<close> that \<^verbatim>\<open>sorted\<close>
  raises when two keys cannot be compared (it names the first pair the sorting
  algorithm happens to compare), and the float that \<^verbatim>\<open>sum\<close> returns for numbers of which
  at least one is a float (plain left-to-right addition before Python 3.12, compensated
  summation since).
\<close>

record pylib =
  float_str :: "rat \<Rightarrow> string"
  sort_error :: "cell list \<Rightarrow> string"
  float_sum :: "cell list \<Rightarrow> rat"

definition digit_char :: "nat \<Rightarrow> char" where
  "digit_char d = char_of (48 + d)"

fun str_of_nat :: "nat \<Rightarrow> string" where
  "str_of_nat n =
     (if n < 10 then [digit_char n] else str_of_nat (n div 10) @ [digit_char (n mod 10)])"

declare str_of_nat.simps [simp del]

definition str_of_int :: "int \<Rightarrow> string" where
  "str_of_int i = (if i < 0 then CHR ''-'' # str_of_nat (nat (- i)) else str_of_nat (nat i))"

text \<open>\<^verbatim>\<open>str(x)\<close>, as an f-string applies it.\<close>

fun py_str :: "pylib \<Rightarrow> cell \<Rightarrow> string" where
  "py_str lib CNone = ''None''"
| "py_str lib (CBool b) = (if b then ''True'' else ''False'')"
| "py_str lib (CInt i) = str_of_int i"
| "py_str lib (CFloat q) = float_str lib q"
| "py_str lib (CStr s) = s"

section \<open>Timeline fusion\<close>

definition ts_fields :: "string list" where
  "ts_fields = [''timestamp'', ''dispatch_dt'', ''start_ts'', ''decision_dt'', ''event_dt'']"

text \<open>
  The inner loop over the candidate fields: the first field that is a key of the record
  and whose value is truthy gives the timestamp; \<^verbatim>\<open>None\<close> when the loop ends without one.
\<close>

fun scan_fields :: "string list \<Rightarrow> row_dict \<Rightarrow> cell" where
  "scan_fields [] r = CNone"
| "scan_fields (f # fs) r =
     (case map_of r f of
        Some v \<Rightarrow> if truthy v then v else scan_fields fs r
      | None \<Rightarrow> scan_fields fs r)"

definition resolve_timestamp :: "row_dict \<Rightarrow> cell" where
  "resolve_timestamp r = scan_fields ts_fields r"

definition resolve_owner :: "pylib \<Rightarrow> row_dict \<Rightarrow> string" where
  "resolve_owner lib r =
     (case map_of r ''supplier_id'' of
        Some v \<Rightarrow> ''Carrier_'' @ py_str lib v
      | None \<Rightarrow>
          (if map_of r ''decision'' \<noteq> None then ''QA_Team''
           else if (case map_of r ''status'' of
                      Some v \<Rightarrow> py_eq v (CStr ''Quarantined'')
                    | None \<Rightarrow> False)
           then ''QA_Team''
           else ''Unknown''))"

text \<open>
  An event is the dictionary the fuser appends: timestamp, source, owner and the record.
  The owner is optional because \<^verbatim>\<open>compute_accountability\<close> reads it with a default.
\<close>

record event =
  ev_timestamp :: cell
  ev_source :: string
  ev_owner :: "string option"
  ev_data :: row_dict

definition make_event :: "pylib \<Rightarrow> string \<Rightarrow> row_dict \<Rightarrow> event" where
  "make_event lib source_name r =
     \<lparr>ev_timestamp = resolve_timestamp r, ev_source = source_name,
      ev_owner = Some (resolve_owner lib r), ev_data = r\<rparr>"

definition sources_to_check :: "string \<Rightarrow> (string \<times> filters) list" where
  "sources_to_check shipment_id =
     [(''logistics_shipments'', [(''shipment_id'', Scalar (CStr shipment_id))]),
      (''sensor_alerts'', [(''shipment_id'', Scalar (CStr shipment_id))]),
      (''wms_quarantine_log'', [(''shipment_id'', Scalar (CStr shipment_id))]),
      (''wms_goods_movements'', [(''shipment_id'', Scalar (CStr shipment_id))]),
      (''finance_waste_log'', [(''shipment_id'', Scalar (CStr shipment_id))])]"

text \<open>The events appended by the outer loop, in the order they are appended.\<close>

definition collect_events :: "pylib \<Rightarrow> data_dir \<Rightarrow> string \<Rightarrow> event list" where
  "collect_events lib fs shipment_id =
     concat (map (\<lambda>(source_name, fl).
                    map (make_event lib source_name)
                      (results_of (query_data_source fs source_name (Some fl) None)))
               (sources_to_check shipment_id))"

fun is_num :: "cell \<Rightarrow> bool" where
  "is_num (CBool b) = True"
| "is_num (CInt i) = True"
| "is_num (CFloat q) = True"
| "is_num CNone = False"
| "is_num (CStr s) = False"

fun is_str :: "cell \<Rightarrow> bool" where
  "is_str (CStr s) = True"
| "is_str CNone = False"
| "is_str (CBool b) = False"
| "is_str (CInt i) = False"
| "is_str (CFloat q) = False"

definition num_key :: "cell \<Rightarrow> rat" where
  "num_key c = (case num_of c of Some q \<Rightarrow> q | None \<Rightarrow> 0)"

fun str_key :: "cell \<Rightarrow> string" where
  "str_key (CStr s) = s"
| "str_key CNone = []"
| "str_key (CBool b) = []"
| "str_key (CInt i) = []"
| "str_key (CFloat q) = []"

text \<open>
  \<^verbatim>\<open>sorted(events, key=lambda x: x["timestamp"])\<close>. Python's sort is stable and compares
  keys with \<^verbatim>\<open><\<close>: numbers among themselves by value, strings among themselves
  character by character; any other pair raises \<^verbatim>\<open>TypeError\<close>. A list of fewer than two
  events is returned without a comparison.
\<close>

definition py_sorted :: "pylib \<Rightarrow> event list \<Rightarrow> string + event list" where
  "py_sorted lib evs =
     (if length evs \<le> 1 then Inr evs
      else if list_all (\<lambda>e. is_num (ev_timestamp e)) evs
      then Inr (sort_key (\<lambda>e. num_key (ev_timestamp e)) evs)
      else if list_all (\<lambda>e. is_str (ev_timestamp e)) evs
      then Inr (sort_key (\<lambda>e. str_key (ev_timestamp e)) evs)
      else Inl (sort_error lib (map ev_timestamp evs)))"

section \<open>Accountability\<close>

text \<open>
  \<^verbatim>\<open>owner_counts[owner] = owner_counts.get(owner, 0) + 1\<close> on a dictionary that keeps
  its keys in insertion order.
\<close>

fun bump :: "string \<Rightarrow> (string \<times> nat) list \<Rightarrow> (string \<times> nat) list" where
  "bump k [] = [(k, 1)]"
| "bump k ((k', n) # rest) = (if k = k' then (k', n + 1) # rest else (k', n) # bump k rest)"

definition owner_of :: "event \<Rightarrow> string" where
  "owner_of e = (case ev_owner e of Some w \<Rightarrow> w | None \<Rightarrow> ''Unknown'')"

definition owner_counts :: "event list \<Rightarrow> (string \<times> nat) list" where
  "owner_counts events = foldl (\<lambda>m e. bump (owner_of e) m) [] events"

record acc_entry =
  contribution_pct :: rat
  event_count :: nat

text \<open>
  The percentage of one owner, \<^verbatim>\<open>round((count / total) * 100, 1)\<close>: a float division, a
  float multiplication and a rounding to one decimal.
\<close>

definition percentage :: "nat \<Rightarrow> nat \<Rightarrow> rat" where
  "percentage cnt total_events =
     py_round 1 (double (double (of_nat cnt / of_nat total_events) * 100))"

text \<open>The dictionary comprehension over the items of \<^verbatim>\<open>owner_counts\<close>.\<close>

fun percentages :: "nat \<Rightarrow> (string \<times> nat) list \<Rightarrow> (string \<times> acc_entry) list" where
  "percentages total_events [] = []"
| "percentages total_events ((owner, cnt) # rest) =
     (owner, \<lparr>contribution_pct = percentage cnt total_events, event_count = cnt\<rparr>)
       # percentages total_events rest"

definition compute_accountability :: "event list \<Rightarrow> (string \<times> acc_entry) list" where
  "compute_accountability events =
     (let counts = owner_counts events;
          total_events = sum_list (map snd counts)
      in if total_events = 0 then [] else percentages total_events counts)"

definition json_of_event :: "event \<Rightarrow> json" where
  "json_of_event e =
     JObj ([(''timestamp'', JVal (ev_timestamp e)), (''source'', JS (ev_source e))]
           @ (case ev_owner e of Some w \<Rightarrow> [(''owner'', JS w)] | None \<Rightarrow> [])
           @ [(''data'', json_of_record (ev_data e))])"

definition json_of_accountability :: "(string \<times> acc_entry) list \<Rightarrow> json" where
  "json_of_accountability acc =
     JObj (map (\<lambda>(owner, a).
                  (owner, JObj [(''contribution_pct'', JVal (CFloat (contribution_pct a))),
                                (''event_count'', JVal (CInt (int (event_count a))))]))
             acc)"

text \<open>
  The timeline the fuser returns: the collected events with a truthy timestamp, sorted.
  A \<^verbatim>\<open>TypeError\<close> from the sort is caught by the function's handler.
\<close>

definition fuse :: "pylib \<Rightarrow> data_dir \<Rightarrow> string \<Rightarrow> string + event list" where
  "fuse lib fs shipment_id =
     py_sorted lib (filter (\<lambda>e. truthy (ev_timestamp e)) (collect_events lib fs shipment_id))"

definition analyze_shipment_timeline :: "pylib \<Rightarrow> data_dir \<Rightarrow> string \<Rightarrow> json" where
  "analyze_shipment_timeline lib fs shipment_id =
     (case fuse lib fs shipment_id of
        Inl msg \<Rightarrow>
          JObj [(''error'', JS (''Error building timeline: '' @ msg)),
                (''shipment_id'', JS shipment_id),
                (''timeline'', JArr [])]
      | Inr events \<Rightarrow>
          JObj [(''shipment_id'', JS shipment_id),
                (''total_events'', JVal (CInt (int (length events)))),
                (''timeline'', JArr (map json_of_event events)),
                (''accountability'', json_of_accountability (compute_accountability events))])"

section \<open>Cost analysis\<close>

fun type_name :: "cell \<Rightarrow> string" where
  "type_name CNone = ''NoneType''"
| "type_name (CBool b) = ''bool''"
| "type_name (CInt i) = ''int''"
| "type_name (CFloat q) = ''float''"
| "type_name (CStr s) = ''str''"

fun int_of :: "cell \<Rightarrow> int option" where
  "int_of (CBool b) = Some (if b then 1 else 0)"
| "int_of (CInt i) = Some i"
| "int_of CNone = None"
| "int_of (CFloat q) = None"
| "int_of (CStr s) = None"

text \<open>The float a number converts to; an integer is rounded to the nearest double.\<close>

fun to_float :: "cell \<Rightarrow> rat option" where
  "to_float (CFloat q) = Some q"
| "to_float (CInt i) = Some (double (of_int i))"
| "to_float (CBool b) = Some (if b then 1 else 0)"
| "to_float CNone = None"
| "to_float (CStr s) = None"

text \<open>
  Python's \<^verbatim>\<open>a + b\<close> on scalars: integers (and booleans) add to an integer, exactly; a
  float with a number gives the rounded sum of the two floats; two strings concatenate;
  every other pair raises \<^verbatim>\<open>TypeError\<close> with the message below.
\<close>

definition py_add :: "cell \<Rightarrow> cell \<Rightarrow> string + cell" where
  "py_add a b =
     (case (int_of a, int_of b) of
        (Some x, Some y) \<Rightarrow> Inr (CInt (x + y))
      | _ \<Rightarrow>
        (case (to_float a, to_float b) of
           (Some x, Some y) \<Rightarrow> Inr (CFloat (double (x + y)))
         | _ \<Rightarrow>
           (case (a, b) of
              (CStr s, CStr t) \<Rightarrow> Inr (CStr (s @ t))
            | _ \<Rightarrow> Inl (''unsupported operand type(s) for +: '' @ quote (type_name a)
                         @ '' and '' @ quote (type_name b)))))"

text \<open>
  \<^verbatim>\<open>sum(xs)\<close> starts from the integer 0 and adds the items from the left. The first item
  that is not a number raises \<^verbatim>\<open>TypeError\<close>; the message names the type of the sum so
  far, \<open>float\<close> once a float has been added and \<open>int\<close> before. Integers and booleans add
  up exactly; with a float among the numbers the result is the float the runtime's
  summation returns.
\<close>

fun sum_error :: "bool \<Rightarrow> cell list \<Rightarrow> string option" where
  "sum_error seen_float [] = None"
| "sum_error seen_float (x # xs) =
     (if to_float x = None
      then Some (''unsupported operand type(s) for +: ''
                 @ quote (if seen_float then ''float'' else ''int'')
                 @ '' and '' @ quote (type_name x))
      else sum_error (seen_float \<or> int_of x = None) xs)"

definition int_val :: "cell \<Rightarrow> int" where
  "int_val c = (case int_of c of Some i \<Rightarrow> i | None \<Rightarrow> 0)"

definition py_sum :: "pylib \<Rightarrow> cell list \<Rightarrow> string + cell" where
  "py_sum lib xs =
     (case sum_error False xs of
        Some msg \<Rightarrow> Inl msg
      | None \<Rightarrow>
          if list_all (\<lambda>x. int_of x \<noteq> None) xs then Inr (CInt (sum_list (map int_val xs)))
          else Inr (CFloat (float_sum lib xs)))"

text \<open>\<^verbatim>\<open>r.get("total_loss_usd", 0)\<close>.\<close>

definition loss_of :: "row_dict \<Rightarrow> cell" where
  "loss_of r = (case map_of r ''total_loss_usd'' of Some v \<Rightarrow> v | None \<Rightarrow> CInt 0)"

text \<open>
  True division of a number by a positive length: always a float, the double nearest
  to the exact quotient.
\<close>

definition py_truediv :: "cell \<Rightarrow> nat \<Rightarrow> cell" where
  "py_truediv a n = CFloat (double (num_key a / of_nat n))"

text \<open>Unary minus and \<^verbatim>\<open>round(x, 2)\<close> on a number; an integer is returned unchanged.\<close>

fun py_neg :: "cell \<Rightarrow> cell" where
  "py_neg (CInt i) = CInt (- i)"
| "py_neg (CFloat q) = CFloat (- q)"
| "py_neg (CBool b) = CInt (- (if b then 1 else 0))"
| "py_neg CNone = CNone"
| "py_neg (CStr s) = CNone"

fun py_round2 :: "cell \<Rightarrow> cell" where
  "py_round2 (CInt i) = CInt i"
| "py_round2 (CFloat q) = CFloat (py_round 2 q)"
| "py_round2 (CBool b) = CInt (if b then 1 else 0)"
| "py_round2 CNone = CNone"
| "py_round2 (CStr s) = CNone"

text \<open>
  The average historical waste: 0 when the waste query gives no record, the sum of the
  losses divided by the number of records otherwise.
\<close>

definition average_waste :: "pylib \<Rightarrow> row_dict list \<Rightarrow> string + cell" where
  "average_waste lib waste_results =
     (if waste_results = [] then Inr (CInt 0)
      else case py_sum lib (map loss_of waste_results) of
             Inl msg \<Rightarrow> Inl msg
           | Inr total_loss \<Rightarrow> Inr (py_truediv total_loss (length waste_results)))"

definition cost_error :: "string \<Rightarrow> string \<Rightarrow> json" where
  "cost_error msg shipment_id = JObj [(''error'', JS msg), (''shipment_id'', JS shipment_id)]"

definition conditional_release :: json where
  "conditional_release =
     JObj [(''description'', JS ''Release shipment pending QA approval''),
           (''expected_waste_usd'', JVal (CInt 0)),
           (''qa_review_cost_usd'', JVal (CInt 500)),
           (''total_cost_usd'', JVal (CInt 500)),
           (''probability_success'', JVal (CFloat (double (85 / 100)))),
           (''expected_value_usd'', JVal (CInt (- 425)))]"

definition reject_reship :: "cell \<Rightarrow> cell \<Rightarrow> json" where
  "reject_reship avg_waste total_cost =
     JObj [(''description'', JS ''Reject shipment and dispatch replacement''),
           (''expected_waste_usd'', JVal avg_waste),
           (''reship_logistics_cost_usd'', JVal (CInt 1200)),
           (''total_cost_usd'', JVal total_cost),
           (''probability_success'', JVal (CFloat 1)),
           (''expected_value_usd'', JVal (py_neg total_cost))]"

definition waste_query :: "data_dir \<Rightarrow> json" where
  "waste_query fs =
     query_data_source fs ''finance_waste_log''
       (Some [(''event_type'', Scalar (CStr ''Quarantine''))]) (Some 10)"

definition shipment_query :: "data_dir \<Rightarrow> string \<Rightarrow> json" where
  "shipment_query fs shipment_id =
     query_data_source fs ''logistics_shipments''
       (Some [(''shipment_id'', Scalar (CStr shipment_id))]) (Some 1)"

definition compute_cost_analysis :: "pylib \<Rightarrow> data_dir \<Rightarrow> string \<Rightarrow> json" where
  "compute_cost_analysis lib fs shipment_id =
     (case results_of (shipment_query fs shipment_id) of
        [] \<Rightarrow> cost_error ''Shipment not found'' shipment_id
      | shipment # _ \<Rightarrow>
          (case average_waste lib (results_of (waste_query fs)) of
             Inl msg \<Rightarrow> cost_error (''Error computing cost analysis: '' @ msg) shipment_id
           | Inr avg_waste \<Rightarrow>
               (case py_add avg_waste (CInt 1200) of
                  Inl msg \<Rightarrow> cost_error (''Error computing cost analysis: '' @ msg) shipment_id
                | Inr total_cost \<Rightarrow>
                    JObj [(''shipment_id'', JS shipment_id),
                          (''shipment_details'', json_of_record shipment),
                          (''scenarios'',
                             JObj [(''conditional_release'', conditional_release),
                                   (''reject_reship'', reject_reship avg_waste total_cost)]),
                          (''historical_waste_avg_usd'', JVal (py_round2 avg_waste))])))"

section \<open>Reference notions\<close>

text \<open>
  The records of the table a source name resolves to; none when the directory is missing,
  no file matches, or the file cannot be read.
\<close>

definition source_records :: "data_dir \<Rightarrow> string \<Rightarrow> row_dict list" where
  "source_records fs source_name =
     (if \<not> dir_exists fs then []
      else case find_csv fs source_name of
             [] \<Rightarrow> []
           | f # _ \<Rightarrow> (case file_frame f of Inl msg \<Rightarrow> [] | Inr df \<Rightarrow> to_dict_records df))"

text \<open>The record holds the string \<open>s\<close> in column \<open>col\<close>.\<close>

definition has_value :: "string \<Rightarrow> string \<Rightarrow> row_dict \<Rightarrow> bool" where
  "has_value col s r = (map_of r col = Some (CStr s))"

text \<open>The effect of a limit on a list of rows, as \<^verbatim>\<open>if limit: df.head(limit)\<close> has it.\<close>

fun limit_rows :: "int option \<Rightarrow> 'a list \<Rightarrow> 'a list" where
  "limit_rows None xs = xs"
| "limit_rows (Some n) xs =
     (if n = 0 then xs else if 0 < n then take (nat n) xs
      else take (length xs - nat (- n)) xs)"

text \<open>A path of keys into a document.\<close>

fun jpath :: "string list \<Rightarrow> json \<Rightarrow> json option" where
  "jpath [] j = Some j"
| "jpath (k # ks) j = (case jget k j of None \<Rightarrow> None | Some j' \<Rightarrow> jpath ks j')"

text \<open>
  The historical records of the cost analysis: the first ten records of the waste log
  whose event type is \<open>Quarantine\<close>. The total of their losses, a record without the
  field counting as 0: the exact sum when the losses are integers, the runtime's float
  sum otherwise. Their mean: the double nearest to the total divided by the number of
  records, and 0 for no record at all.
\<close>

definition historical_records :: "data_dir \<Rightarrow> row_dict list" where
  "historical_records fs =
     take 10 (filter (has_value ''event_type'' ''Quarantine'') (source_records fs ''finance_waste_log''))"

definition total_loss :: "pylib \<Rightarrow> row_dict list \<Rightarrow> rat" where
  "total_loss lib recs =
     (if list_all (\<lambda>r. int_of (loss_of r) \<noteq> None) recs
      then of_int (sum_list (map (\<lambda>r. int_val (loss_of r)) recs))
      else float_sum lib (map loss_of recs))"

definition mean_loss :: "pylib \<Rightarrow> row_dict list \<Rightarrow> rat" where
  "mean_loss lib recs =
     (if recs = [] then 0 else double (total_loss lib recs / of_nat (length recs)))"

section \<open>A sample data directory\<close>

text \<open>
  Five small tables named as the fuser expects them. The goods-movement table has no
  timestamp column, and the waste log holds two \<open>Quarantine\<close> records and one other.
\<close>

definition shipments_df :: dataframe where
  "shipments_df =
     \<lparr>df_columns = [''shipment_id'', ''supplier_id'', ''dispatch_dt''],
      df_rows = [[CStr ''SHP-001-1'', CStr ''SUP-7'', CStr ''2024-01-04T08:00''],
                 [CStr ''SHP-001-2'', CStr ''SUP-9'', CStr ''2024-01-04T09:30'']]\<rparr>"

definition alerts_df :: dataframe where
  "alerts_df =
     \<lparr>df_columns = [''shipment_id'', ''timestamp'', ''temp_c''],
      df_rows = [[CStr ''SHP-001-1'', CStr ''2024-01-05T10:00'', CFloat (92 / 10)],
                 [CStr ''SHP-001-2'', CStr ''2024-01-05T11:00'', CFloat (41 / 10)],
                 [CStr ''SHP-001-1'', CStr ''2024-01-04T08:00'', CFloat (88 / 10)]]\<rparr>"

definition quarantine_df :: dataframe where
  "quarantine_df =
     \<lparr>df_columns = [''shipment_id'', ''start_ts'', ''status''],
      df_rows = [[CStr ''SHP-001-1'', CStr ''2024-01-06T09:00'', CStr ''Quarantined'']]\<rparr>"

definition movements_df :: dataframe where
  "movements_df =
     \<lparr>df_columns = [''shipment_id'', ''location''],
      df_rows = [[CStr ''SHP-001-1'', CStr ''Dock 4'']]\<rparr>"

definition waste_df :: dataframe where
  "waste_df =
     \<lparr>df_columns = [''shipment_id'', ''event_type'', ''event_dt'', ''total_loss_usd''],
      df_rows = [[CStr ''SHP-000-9'', CStr ''Quarantine'', CStr ''2023-11-02'', CInt 1000],
                 [CStr ''SHP-000-8'', CStr ''Spoilage'', CStr ''2023-11-09'', CInt 500],
                 [CStr ''SHP-000-7'', CStr ''Quarantine'', CStr ''2023-12-01'', CFloat (4001 / 2)]]\<rparr>"

definition csv :: "string \<Rightarrow> dataframe \<Rightarrow> csv_file" where
  "csv stem df =
     \<lparr>file_path = ''mock_data/'' @ stem @ ''.csv'', file_name = stem @ ''.csv'',
      file_stem = stem, file_frame = Inr df\<rparr>"

definition demo_files :: "csv_file list" where
  "demo_files =
     [csv ''logistics_shipments'' shipments_df, csv ''sensor_alerts'' alerts_df,
      csv ''wms_quarantine_log'' quarantine_df, csv ''wms_goods_movements'' movements_df,
      csv ''finance_waste_log'' waste_df]"

text \<open>
  A directory holding the given files: a literal name matches the files of that name,
  the pattern \<open>*.csv\<close> matches every file.
\<close>

definition dir_of :: "csv_file list \<Rightarrow> data_dir" where
  "dir_of files =
     \<lparr>dir_str = ''mock_data'', dir_exists = True,
      rglob = (\<lambda>pat. if pat = ''*.csv'' then files
                      else filter (\<lambda>f. file_name f = pat) files)\<rparr>"

definition demo_dir :: data_dir where
  "demo_dir = dir_of demo_files"


text \<open>A runtime whose \<^verbatim>\<open>sum\<close> adds floats from the left, one rounding per addition.\<close>

fun sum_from_left :: "rat \<Rightarrow> cell list \<Rightarrow> rat" where
  "sum_from_left acc [] = acc"
| "sum_from_left acc (x # xs) =
     sum_from_left (double (acc + (case to_float x of Some q \<Rightarrow> q | None \<Rightarrow> 0))) xs"

definition demo_lib :: pylib where
  "demo_lib =
     \<lparr>float_str = (\<lambda>q. ''?''), sort_error = (\<lambda>ks. ''not comparable''),
      float_sum = sum_from_left 0\<rparr>"


definition has_timestamp :: "event \<Rightarrow> bool" where
  "has_timestamp e = truthy (ev_timestamp e)"


definition timeline_events :: "pylib \<Rightarrow> data_dir \<Rightarrow> string \<Rightarrow> event list" where
  "timeline_events lib fs shipment_id =
     (case fuse lib fs shipment_id of Inl msg \<Rightarrow> [] | Inr events \<Rightarrow> events)"





definition field_value :: "row_dict \<Rightarrow> string \<Rightarrow> cell" where
  "field_value r f = (case map_of r f of Some v \<Rightarrow> v | None \<Rightarrow> CNone)"


definition zero_ts_df :: dataframe where
  "zero_ts_df =
     \<lparr>df_columns = [''shipment_id'', ''timestamp'', ''dispatch_dt''],
      df_rows = [[CStr ''SHP-7'', CInt 0, CStr ''2024-02-01T06:00'']]\<rparr>"

definition zero_dir :: data_dir where
  "zero_dir = dir_of [csv ''logistics_shipments'' zero_ts_df]"


section \<open>The query engine\<close>

lemma cell_of_json_JVal: "cell_of_json \<circ> JVal = id"
  by (rule ext) simp

lemma record_of_json_of_record: "record_of_json (json_of_record r) = r"
  by (induction r) (auto simp: json_of_record_def)

lemma results_of_records:
  "jget ''results'' doc = Some (JArr (map json_of_record rs)) \<Longrightarrow> results_of doc = rs"
  by (simp add: results_of_def o_def record_of_json_of_record)

lemma results_of_empty:
  "jget ''results'' doc = Some (JArr []) \<Longrightarrow> results_of doc = []"
  by (simp add: results_of_def)

lemma apply_filters_columns:
  "apply_filters df fl = Inr df1 \<Longrightarrow> df_columns df1 = df_columns df"
  by (induction df fl rule: apply_filters.induct) (auto simp: filter_rows_def split: if_splits)

lemma apply_filters_unknown:
  "apply_filters df fl = Inl col \<Longrightarrow> col \<in> fst ` set fl \<and> col \<notin> set (df_columns df)"
proof (induction df fl rule: apply_filters.induct)
  case (1 df)
  then show ?case by simp
next
  case (2 df c v rest)
  show ?case
  proof (cases "c \<in> set (df_columns df)")
    case True
    with 2 have "col \<in> fst ` set rest \<and> col \<notin> set (df_columns (filter_rows df c v))"
      by simp
    then show ?thesis by (simp add: filter_rows_def)
  next
    case False
    with 2 show ?thesis by simp
  qed
qed

lemma apply_filters_valid:
  "\<forall>k \<in> fst ` set fl. k \<in> set (df_columns df) \<Longrightarrow> \<exists>df1. apply_filters df fl = Inr df1"
  by (induction df fl rule: apply_filters.induct) (auto simp: filter_rows_def)

lemma apply_filters_invalid:
  "k \<in> fst ` set fl \<Longrightarrow> k \<notin> set (df_columns df) \<Longrightarrow> \<exists>col. apply_filters df fl = Inl col"
proof -
  assume k: "k \<in> fst ` set fl" "k \<notin> set (df_columns df)"
  show ?thesis
  proof (cases "apply_filters df fl")
    case (Inl col)
    then show ?thesis by blast
  next
    case (Inr df1)
    have "\<And>df1. apply_filters df fl = Inr df1 \<Longrightarrow> \<forall>k \<in> fst ` set fl. k \<in> set (df_columns df)"
      by (induction df fl rule: apply_filters.induct) (auto simp: filter_rows_def split: if_splits)
    with Inr k show ?thesis by blast
  qed
qed

lemma apply_filters_rows:
  "apply_filters df fl = Inr df1 \<Longrightarrow>
   df_rows df1 = filter (\<lambda>r. list_all (\<lambda>(col, val). row_matches col val (row_record df r)) fl) (df_rows df)"
proof (induction df fl arbitrary: df1 rule: apply_filters.induct)
  case (1 df)
  then show ?case by simp
next
  case (2 df c v rest)
  then have in_cols: "c \<in> set (df_columns df)" by (auto split: if_splits)
  with 2 have "df_rows df1 = filter (\<lambda>r. list_all (\<lambda>(col, val). row_matches col val (row_record (filter_rows df c v) r)) rest) (df_rows (filter_rows df c v))"
    by simp
  moreover have "row_record (filter_rows df c v) = row_record df"
    by (rule ext) (simp add: row_record_def filter_rows_def)
  ultimately show ?case
    by (simp add: filter_rows_def conj_commute)
qed

lemma apply_filters_records:
  assumes "apply_filters df fl = Inr df1"
  shows "to_dict_records df1 = filtered_records df fl"
proof -
  have "row_record df1 = row_record df"
    using apply_filters_columns [OF assms] by (intro ext) (simp add: row_record_def)
  then show ?thesis
    by (simp add: to_dict_records_def filtered_records_def apply_filters_rows [OF assms] filter_map o_def)
qed

lemma query_found:
  assumes "dir_exists fs" "find_csv fs source_name = f # others" "file_frame f = Inr df"
  shows "query_data_source fs source_name filters limit =
     (case apply_filters df (filter_items filters) of
        Inl col \<Rightarrow>
          JObj [(''error'', JS (''Column '' @ quote col @ '' not found in '' @ file_name f)),
                (''available_columns'', JArr (map JS (df_columns df))),
                (''results'', JArr [])]
      | Inr df1 \<Rightarrow>
          (let df2 = (case limit of None \<Rightarrow> df1
                      | Some n \<Rightarrow> if n \<noteq> 0 then head df1 n else df1);
               results = to_dict_records df2
           in JObj [(''source_file'', JS (file_path f)),
                    (''total_records'', JVal (CInt (int (length results)))),
                    (''columns'', JArr (map JS (df_columns df2))),
                    (''results'', JArr (map json_of_record results))]))"
  using assms by (simp add: query_data_source_def)


lemma demo_find_alerts: "find_csv demo_dir ''sensor_alerts'' = [csv ''sensor_alerts'' alerts_df]"
  by (simp add: find_csv_def demo_dir_def dir_of_def demo_files_def csv_def suffix_to_prefix Let_def)


text \<open>
  Claim C3. When the source resolves to a readable table and some filter key is not one
  of its columns, \<^verbatim>\<open>query_data_source\<close> returns the error document for an unknown
  column: it names a filter key that is not a column, lists the table's columns under
  \<^verbatim>\<open>available_columns\<close>, and its \<^verbatim>\<open>results\<close> list is empty. The document is not a
  success document, whatever the limit and the other filters are.
\<close>

theorem unknown_column_error:
  assumes "dir_exists fs" and "find_csv fs source_name = f # others"
    and "file_frame f = Inr df"
    and "k \<in> fst ` set fl" and "k \<notin> set (df_columns df)"
  shows "\<exists>col. col \<in> fst ` set fl \<and> col \<notin> set (df_columns df) \<and>
           query_data_source fs source_name (Some fl) limit =
             JObj [(''error'', JS (''Column '' @ quote col @ '' not found in '' @ file_name f)),
                   (''available_columns'', JArr (map JS (df_columns df))),
                   (''results'', JArr [])]"
proof -
  from apply_filters_invalid [OF assms(4,5)] obtain col where col: "apply_filters df fl = Inl col"
    by blast
  have "query_data_source fs source_name (Some fl) limit =
          JObj [(''error'', JS (''Column '' @ quote col @ '' not found in '' @ file_name f)),
                (''available_columns'', JArr (map JS (df_columns df))),
                (''results'', JArr [])]"
    by (simp add: query_found [OF assms(1-3)] filter_items_def col)
  with apply_filters_unknown [OF col] show ?thesis by blast
qed

theorem unknown_column_error_witness:
  "query_data_source demo_dir ''sensor_alerts''
     (Some [(''shipment_id'', Scalar (CStr ''SHP-001-1'')), (''carrier'', Scalar (CStr ''DHL''))])
     (Some 10) =
   JObj [(''error'', JS (''Column '' @ quote ''carrier'' @ '' not found in sensor_alerts.csv'')),
         (''available_columns'', JArr [JS ''shipment_id'', JS ''timestamp'', JS ''temp_c'']),
         (''results'', JArr [])]"
proof -
  have "\<exists>col. col \<in> fst ` set [(''shipment_id'', Scalar (CStr ''SHP-001-1'')), (''carrier'', Scalar (CStr ''DHL''))]
          \<and> col \<notin> set (df_columns alerts_df) \<and>
          query_data_source demo_dir ''sensor_alerts''
            (Some [(''shipment_id'', Scalar (CStr ''SHP-001-1'')), (''carrier'', Scalar (CStr ''DHL''))])
            (Some 10) =
          JObj [(''error'', JS (''Column '' @ quote col @ '' not found in '' @ file_name (csv ''sensor_alerts'' alerts_df))),
                (''available_columns'', JArr (map JS (df_columns alerts_df))),
                (''results'', JArr [])]"
    by (rule unknown_column_error [where k = "''carrier''" and others = "[]"])
       (simp_all add: demo_find_alerts, simp_all add: demo_dir_def dir_of_def csv_def alerts_df_def)
  then show ?thesis
    by (auto simp: alerts_df_def csv_def)
qed


lemma head_rows_pos: "0 < n \<Longrightarrow> to_dict_records (head df n) = take (nat n) (to_dict_records df)"
  by (simp add: to_dict_records_def head_def row_record_def [abs_def] take_map)

text \<open>
  Claim C10, as amended. For a readable table and filters whose keys are all columns, a
  limit of 0 gives the same document as no limit, holding every filtered record; a
  positive limit \<open>n\<close> gives the first \<open>n\<close> filtered records.
\<close>

theorem zero_limit_returns_all:
  assumes "dir_exists fs" and "find_csv fs source_name = f # others"
    and "file_frame f = Inr df"
    and "\<forall>k \<in> fst ` set (filter_items filters). k \<in> set (df_columns df)"
  shows "query_data_source fs source_name filters (Some 0) =
           query_data_source fs source_name filters None
       \<and> results_of (query_data_source fs source_name filters (Some 0)) =
           filtered_records df (filter_items filters)
       \<and> (\<forall>n>0. results_of (query_data_source fs source_name filters (Some n)) =
                 take (nat n) (filtered_records df (filter_items filters)))"
proof -
  from apply_filters_valid [OF assms(4)] obtain df1
    where df1: "apply_filters df (filter_items filters) = Inr df1" by blast
  note recs = apply_filters_records [OF df1]
  have same: "query_data_source fs source_name filters (Some 0) =
                query_data_source fs source_name filters None"
    by (simp add: query_found [OF assms(1-3)] df1)
  have none: "results_of (query_data_source fs source_name filters None) =
                filtered_records df (filter_items filters)"
    by (rule results_of_records) (simp add: query_found [OF assms(1-3)] df1 recs Let_def)
  have pos: "results_of (query_data_source fs source_name filters (Some n)) =
               take (nat n) (filtered_records df (filter_items filters))" if "0 < n" for n
    using that
    by (intro results_of_records)
       (simp add: query_found [OF assms(1-3)] df1 head_rows_pos recs Let_def)
  from same none pos show ?thesis by simp
qed

theorem zero_limit_returns_all_witness:
  "results_of (query_data_source demo_dir ''sensor_alerts''
      (Some [(''shipment_id'', Scalar (CStr ''SHP-001-1''))]) (Some 0)) =
     [[(''shipment_id'', CStr ''SHP-001-1''), (''timestamp'', CStr ''2024-01-05T10:00''),
       (''temp_c'', CFloat (92 / 10))],
      [(''shipment_id'', CStr ''SHP-001-1''), (''timestamp'', CStr ''2024-01-04T08:00''),
       (''temp_c'', CFloat (88 / 10))]]
   \<and> results_of (query_data_source demo_dir ''sensor_alerts''
      (Some [(''shipment_id'', Scalar (CStr ''SHP-001-1''))]) (Some 1)) =
     [[(''shipment_id'', CStr ''SHP-001-1''), (''timestamp'', CStr ''2024-01-05T10:00''),
       (''temp_c'', CFloat (92 / 10))]]"
proof -
  have recs: "filtered_records alerts_df [(''shipment_id'', Scalar (CStr ''SHP-001-1''))] =
     [[(''shipment_id'', CStr ''SHP-001-1''), (''timestamp'', CStr ''2024-01-05T10:00''),
       (''temp_c'', CFloat (92 / 10))],
      [(''shipment_id'', CStr ''SHP-001-1''), (''timestamp'', CStr ''2024-01-04T08:00''),
       (''temp_c'', CFloat (88 / 10))]]"
    by code_simp
  have ex: "dir_exists demo_dir"
    by (simp add: demo_dir_def dir_of_def)
  have fr: "file_frame (csv ''sensor_alerts'' alerts_df) = Inr alerts_df"
    by (simp add: csv_def)
  have cols: "\<forall>k \<in> fst ` set (filter_items (Some [(''shipment_id'', Scalar (CStr ''SHP-001-1''))])).
          k \<in> set (df_columns alerts_df)"
    by (simp add: filter_items_def alerts_df_def)
  note t = zero_limit_returns_all [OF ex demo_find_alerts fr cols]
  from t [THEN conjunct2, THEN conjunct1] have zero: "results_of (query_data_source demo_dir ''sensor_alerts''
      (Some [(''shipment_id'', Scalar (CStr ''SHP-001-1''))]) (Some 0)) =
      filtered_records alerts_df [(''shipment_id'', Scalar (CStr ''SHP-001-1''))]"
    by (simp add: filter_items_def)
  from t [THEN conjunct2, THEN conjunct2] have "\<forall>n>0. results_of (query_data_source demo_dir ''sensor_alerts''
      (Some [(''shipment_id'', Scalar (CStr ''SHP-001-1''))]) (Some n)) =
      take (nat n) (filtered_records alerts_df [(''shipment_id'', Scalar (CStr ''SHP-001-1''))])"
    by (simp add: filter_items_def)
  then have one: "results_of (query_data_source demo_dir ''sensor_alerts''
      (Some [(''shipment_id'', Scalar (CStr ''SHP-001-1''))]) (Some 1)) =
      take (nat 1) (filtered_records alerts_df [(''shipment_id'', Scalar (CStr ''SHP-001-1''))])"
    by (rule allE [of _ 1]) simp
  show ?thesis
    by (simp add: zero one recs)
qed

text \<open>
  The claim's last clause, that only a positive limit truncates, fails for a negative
  limit: \<^verbatim>\<open>if limit:\<close> lets \<open>-1\<close> through and \<^verbatim>\<open>df.head(-1)\<close> drops the last row.
\<close>

theorem negative_limit_truncates:
  "length (results_of (query_data_source demo_dir ''sensor_alerts'' None None)) = 3
   \<and> results_of (query_data_source demo_dir ''sensor_alerts'' None (Some (- 1))) =
       take 2 (results_of (query_data_source demo_dir ''sensor_alerts'' None None))
   \<and> \<not> (0 :: int) < - 1"
  by code_simp

section \<open>The cost analyzer\<close>

lemma row_matches_str: "row_matches col (Scalar (CStr s)) r = has_value col s r"
  by (cases "map_of r col"; cases "the (map_of r col)")
     (auto simp: row_matches_def has_value_def eq_cell_def py_eq_def split: option.splits)

lemma map_of_row_record_None:
  "col \<notin> set (df_columns df) \<Longrightarrow> map_of (row_record df r) col = None"
  by (auto simp: row_record_def map_of_eq_None_iff dest: set_zip_leftD)

lemma head_records: "to_dict_records (head df n) = limit_rows (Some n) (to_dict_records df)" if "n \<noteq> 0"
  using that by (auto simp: to_dict_records_def head_def row_record_def [abs_def] take_map)

lemma query_results_valid:
  assumes "dir_exists fs" and "find_csv fs source_name = f # others"
    and "file_frame f = Inr df"
    and "\<forall>k \<in> fst ` set (filter_items filters). k \<in> set (df_columns df)"
  shows "results_of (query_data_source fs source_name filters limit) =
           limit_rows limit (filtered_records df (filter_items filters))"
proof -
  from apply_filters_valid [OF assms(4)] obtain df1
    where df1: "apply_filters df (filter_items filters) = Inr df1" by blast
  note recs = apply_filters_records [OF df1]
  show ?thesis
    by (rule results_of_records)
       (auto simp: query_found [OF assms(1-3)] df1 Let_def head_records recs split: option.splits)
qed

lemma query_scalar_results:
  "results_of (query_data_source fs source_name (Some [(col, Scalar (CStr s))]) limit) =
     limit_rows limit (filter (has_value col s) (source_records fs source_name))"
proof (cases "dir_exists fs")
  case False
  then show ?thesis
    by (cases limit) (simp_all add: query_data_source_def results_of_def source_records_def)
next
  case ex: True
  show ?thesis
  proof (cases "find_csv fs source_name")
    case Nil
    with ex show ?thesis
      by (cases limit) (simp_all add: query_data_source_def results_of_def source_records_def)
  next
    case (Cons f others)
    show ?thesis
    proof (cases "file_frame f")
      case (Inl msg)
      with ex Cons show ?thesis
        by (cases limit) (simp_all add: query_data_source_def results_of_def source_records_def)
    next
      case (Inr df)
      have src: "source_records fs source_name = to_dict_records df"
        using ex Cons Inr by (simp add: source_records_def)
      show ?thesis
      proof (cases "col \<in> set (df_columns df)")
        case False
        then have "filter (has_value col s) (to_dict_records df) = []"
          by (auto simp: filter_empty_conv to_dict_records_def has_value_def map_of_row_record_None)
        moreover have "results_of (query_data_source fs source_name (Some [(col, Scalar (CStr s))]) limit) = []"
          using False by (simp add: query_found [OF ex Cons Inr] filter_items_def results_of_def)
        ultimately show ?thesis
          by (cases limit) (simp_all add: src)
      next
        case True
        then have valid: "\<forall>k \<in> fst ` set (filter_items (Some [(col, Scalar (CStr s))])). k \<in> set (df_columns df)"
          by (simp add: filter_items_def)
        have fr: "filtered_records df (filter_items (Some [(col, Scalar (CStr s))])) =
                filter (has_value col s) (to_dict_records df)"
          by (simp add: filtered_records_def filter_items_def row_matches_str)
        show ?thesis
          by (simp add: query_results_valid [OF ex Cons Inr valid] fr src)
      qed
    qed
  qed
qed


lemma shipment_query_results:
  "results_of (shipment_query fs sid) =
     take 1 (filter (has_value ''shipment_id'' sid) (source_records fs ''logistics_shipments''))"
  by (simp add: shipment_query_def query_scalar_results)

lemma waste_query_results: "results_of (waste_query fs) = historical_records fs"
  by (simp add: waste_query_def query_scalar_results historical_records_def)

lemma double_1200: "double (of_int 1200) = 1200"
  by code_simp


lemma list_all_losses:
  "list_all (\<lambda>x. int_of x \<noteq> None) (map loss_of recs) =
     list_all (\<lambda>r. int_of (loss_of r) \<noteq> None) recs"
  by (simp add: list_all_iff)

lemma average_waste_num:
  assumes "average_waste lib recs = Inr a"
  shows "num_of a = Some (mean_loss lib recs)"
    and "recs = [] \<Longrightarrow> a = CInt 0"
    and "recs \<noteq> [] \<Longrightarrow> a = CFloat (mean_loss lib recs)"
proof -
  show empty: "recs = [] \<Longrightarrow> a = CInt 0"
    using assms by (simp add: average_waste_def)
  show full: "a = CFloat (mean_loss lib recs)" if "recs \<noteq> []"
  proof -
    from that assms obtain t where t: "py_sum lib (map loss_of recs) = Inr t"
      and a: "a = py_truediv t (length recs)"
      by (auto simp: average_waste_def split: sum.splits)
    have "num_key t = total_loss lib recs"
    proof (cases "list_all (\<lambda>r. int_of (loss_of r) \<noteq> None) recs")
      case True
      then have "list_all (\<lambda>x. int_of x \<noteq> None) (map loss_of recs)"
        unfolding list_all_losses .
      with t have "t = CInt (sum_list (map int_val (map loss_of recs)))"
        by (simp add: py_sum_def split: option.splits)
      with True show ?thesis
        by (simp add: total_loss_def num_key_def o_def)
    next
      case False
      then have "\<not> list_all (\<lambda>x. int_of x \<noteq> None) (map loss_of recs)"
        unfolding list_all_losses .
      with t have "t = CFloat (float_sum lib (map loss_of recs))"
        by (simp add: py_sum_def split: option.splits)
      with False show ?thesis
        by (simp add: total_loss_def num_key_def)
    qed
    with that show ?thesis
      by (simp add: a py_truediv_def mean_loss_def)
  qed
  show "num_of a = Some (mean_loss lib recs)"
  proof (cases "recs = []")
    case True
    with empty show ?thesis by (simp add: mean_loss_def)
  next
    case False
    with full show ?thesis by simp
  qed
qed

lemma cost_analysis_found:
  assumes "results_of (shipment_query fs sid) = shipment # others"
    and "average_waste lib (results_of (waste_query fs)) = Inr a"
  shows "\<exists>t. num_of t = Some (double (mean_loss lib (historical_records fs) + 1200)) \<and>
     (historical_records fs = [] \<longrightarrow> t = CInt 1200) \<and>
     compute_cost_analysis lib fs sid =
       JObj [(''shipment_id'', JS sid),
             (''shipment_details'', json_of_record shipment),
             (''scenarios'',
                JObj [(''conditional_release'', conditional_release),
                      (''reject_reship'', reject_reship a t)]),
             (''historical_waste_avg_usd'', JVal (py_round2 a))]"
proof (cases "historical_records fs = []")
  case True
  from average_waste_num(2) [OF assms(2)] True have a: "a = CInt 0"
    by (simp add: waste_query_results)
  have "py_add a (CInt 1200) = Inr (CInt 1200)"
    by (simp add: a py_add_def)
  moreover have "double (mean_loss lib (historical_records fs) + 1200) = 1200"
    using double_1200 by (simp add: True mean_loss_def)
  ultimately show ?thesis
    by (intro exI [of _ "CInt 1200"]) (simp add: compute_cost_analysis_def assms)
next
  case False
  from average_waste_num(3) [OF assms(2)] False
  have a: "a = CFloat (mean_loss lib (historical_records fs))"
    by (simp add: waste_query_results)
  have "py_add a (CInt 1200) = Inr (CFloat (double (mean_loss lib (historical_records fs) + 1200)))"
    using double_1200 by (simp add: a py_add_def)
  with False show ?thesis
    by (intro exI [of _ "CFloat (double (mean_loss lib (historical_records fs) + 1200))"])
       (simp add: compute_cost_analysis_def assms)
qed

lemma cost_analysis_success:
  assumes "jget ''error'' (compute_cost_analysis lib fs sid) = None"
  shows "\<exists>shipment others a. results_of (shipment_query fs sid) = shipment # others \<and>
           average_waste lib (results_of (waste_query fs)) = Inr a"
  using assms
  by (auto simp: compute_cost_analysis_def cost_error_def split: list.splits sum.splits)





text \<open>
  Claim C9. When no record of the shipment table carries the unit identifier (also when
  the table cannot be resolved at all), \<^verbatim>\<open>compute_cost_analysis\<close> returns the error
  document made of the message \<open>Shipment not found\<close> and the identifier, and nothing
  else: it has no \<^verbatim>\<open>scenarios\<close> entry.
\<close>

theorem unit_not_found:
  assumes "\<forall>r \<in> set (source_records fs ''logistics_shipments'').
             map_of r ''shipment_id'' \<noteq> Some (CStr shipment_id)"
  shows "compute_cost_analysis lib fs shipment_id =
           JObj [(''error'', JS ''Shipment not found''), (''shipment_id'', JS shipment_id)]
       \<and> jget ''scenarios'' (compute_cost_analysis lib fs shipment_id) = None"
proof -
  from assms
  have "filter (has_value ''shipment_id'' shipment_id) (source_records fs ''logistics_shipments'') = []"
    by (simp add: filter_empty_conv has_value_def)
  then have "results_of (shipment_query fs shipment_id) = []"
    by (simp add: shipment_query_results)
  then show ?thesis
    by (simp add: compute_cost_analysis_def cost_error_def)
qed

theorem unit_not_found_witness:
  "compute_cost_analysis demo_lib demo_dir ''SHP-404'' =
     JObj [(''error'', JS ''Shipment not found''), (''shipment_id'', JS ''SHP-404'')]"
proof -
  have "\<forall>r \<in> set (source_records demo_dir ''logistics_shipments'').
          map_of r ''shipment_id'' \<noteq> Some (CStr ''SHP-404'')"
    by code_simp
  from unit_not_found [OF this] show ?thesis by (rule conjunct1)
qed

text \<open>
  Claim C1, as amended. In every result without an \<^verbatim>\<open>error\<close> entry the scenario
  \<^verbatim>\<open>conditional_release\<close> is the same fixed object: expected waste 0, QA review cost 500,
  total cost 500, success probability 0.85 and expected value -425, which is
  \<open>-(500 \<times> 0.85)\<close>.
\<close>

theorem conditional_release_fixed:
  assumes "jget ''error'' (compute_cost_analysis lib fs shipment_id) = None"
  shows "jpath [''scenarios'', ''conditional_release''] (compute_cost_analysis lib fs shipment_id) =
           Some (JObj [(''description'', JS ''Release shipment pending QA approval''),
                       (''expected_waste_usd'', JVal (CInt 0)),
                       (''qa_review_cost_usd'', JVal (CInt 500)),
                       (''total_cost_usd'', JVal (CInt 500)),
                       (''probability_success'', JVal (CFloat (double (85 / 100)))),
                       (''expected_value_usd'', JVal (CInt (- 425)))])"
proof -
  from cost_analysis_success [OF assms] obtain shipment others a
    where "results_of (shipment_query fs shipment_id) = shipment # others"
      and "average_waste lib (results_of (waste_query fs)) = Inr a"
    by blast
  from cost_analysis_found [OF this] show ?thesis
    by (auto simp: conditional_release_def)
qed

lemma demo_cost_ok: "jget ''error'' (compute_cost_analysis demo_lib demo_dir ''SHP-001-1'') = None"
  by code_simp

theorem conditional_release_fixed_witness:
  "jget ''error'' (compute_cost_analysis demo_lib demo_dir ''SHP-001-1'') = None
   \<and> jpath [''scenarios'', ''conditional_release''] (compute_cost_analysis demo_lib demo_dir ''SHP-001-1'') =
           Some (JObj [(''description'', JS ''Release shipment pending QA approval''),
                       (''expected_waste_usd'', JVal (CInt 0)),
                       (''qa_review_cost_usd'', JVal (CInt 500)),
                       (''total_cost_usd'', JVal (CInt 500)),
                       (''probability_success'', JVal (CFloat (double (85 / 100)))),
                       (''expected_value_usd'', JVal (CInt (- 425)))])"
  by (rule conjI [OF demo_cost_ok conditional_release_fixed [OF demo_cost_ok]])

text \<open>
  The claim states the expected value as \<open>-(total_cost)\<close>, that is -500. On the sample
  directory the analysis succeeds with total cost 500 and expected value -425.
\<close>

theorem expected_value_not_minus_total_cost:
  "jget ''error'' (compute_cost_analysis demo_lib demo_dir ''SHP-001-1'') = None
   \<and> jpath [''scenarios'', ''conditional_release'', ''total_cost_usd'']
        (compute_cost_analysis demo_lib demo_dir ''SHP-001-1'') = Some (JVal (CInt 500))
   \<and> jpath [''scenarios'', ''conditional_release'', ''expected_value_usd'']
        (compute_cost_analysis demo_lib demo_dir ''SHP-001-1'') = Some (JVal (CInt (- 425)))
   \<and> \<not> py_eq (CInt (- 425)) (py_neg (CInt 500))"
  by code_simp






section \<open>The timeline fuser\<close>







lemma py_sorted_cases:
  assumes "py_sorted lib evs = Inr out"
  obtains (short) "length evs \<le> 1" "out = evs"
    | (num) "list_all (\<lambda>e. is_num (ev_timestamp e)) evs"
            "out = sort_key (\<lambda>e. num_key (ev_timestamp e)) evs"
    | (str) "list_all (\<lambda>e. is_str (ev_timestamp e)) evs"
            "out = sort_key (\<lambda>e. str_key (ev_timestamp e)) evs"
proof (cases "length evs \<le> 1")
  case True
  with assms have "out = evs" by (simp add: py_sorted_def)
  with True show ?thesis by (rule short)
next
  case long: False
  show ?thesis
  proof (cases "list_all (\<lambda>e. is_num (ev_timestamp e)) evs")
    case True
    with assms long have "out = sort_key (\<lambda>e. num_key (ev_timestamp e)) evs"
      by (simp add: py_sorted_def)
    with True show ?thesis by (rule num)
  next
    case nonum: False
    show ?thesis
    proof (cases "list_all (\<lambda>e. is_str (ev_timestamp e)) evs")
      case True
      with assms long nonum have "out = sort_key (\<lambda>e. str_key (ev_timestamp e)) evs"
        by (simp add: py_sorted_def)
      with True show ?thesis by (rule str)
    next
      case False
      with assms long nonum show ?thesis by (simp add: py_sorted_def)
    qed
  qed
qed

lemma py_sorted_mset: "py_sorted lib evs = Inr out \<Longrightarrow> mset out = mset evs"
  by (erule py_sorted_cases) simp_all




lemma collected_event:
  assumes "e \<in> set (collect_events lib fs shipment_id)"
  shows "\<exists>source_name r. e = make_event lib source_name r"
  using assms by (auto simp: collect_events_def)

lemma fuse_subset:
  assumes "fuse lib fs shipment_id = Inr out"
  shows "mset out = mset (filter has_timestamp (collect_events lib fs shipment_id))"
  using py_sorted_mset [OF assms [unfolded fuse_def]]
  by (simp add: has_timestamp_def [abs_def])

lemma timeline_events_subset:
  "e \<in> set (timeline_events lib fs shipment_id) \<Longrightarrow>
   e \<in> set (collect_events lib fs shipment_id) \<and> truthy (ev_timestamp e)"
proof (cases "fuse lib fs shipment_id")
  case (Inl msg)
  assume "e \<in> set (timeline_events lib fs shipment_id)"
  with Inl show ?thesis by (simp add: timeline_events_def)
next
  case (Inr out)
  assume "e \<in> set (timeline_events lib fs shipment_id)"
  with Inr have "e \<in># mset out" by (simp add: timeline_events_def)
  then have "e \<in> set (filter has_timestamp (collect_events lib fs shipment_id))"
    unfolding fuse_subset [OF Inr] by simp
  then show ?thesis by (simp add: has_timestamp_def)
qed

lemma analyze_error:
  assumes "fuse lib fs shipment_id = Inl msg"
  shows "analyze_shipment_timeline lib fs shipment_id =
           JObj [(''error'', JS (''Error building timeline: '' @ msg)),
                 (''shipment_id'', JS shipment_id),
                 (''timeline'', JArr [])]"
    and "timeline_events lib fs shipment_id = []"
  using assms by (simp_all add: analyze_shipment_timeline_def timeline_events_def)

lemma analyze_ok:
  assumes "fuse lib fs shipment_id = Inr out"
  shows "analyze_shipment_timeline lib fs shipment_id =
           JObj [(''shipment_id'', JS shipment_id),
                 (''total_events'', JVal (CInt (int (length out)))),
                 (''timeline'', JArr (map json_of_event out)),
                 (''accountability'', json_of_accountability (compute_accountability out))]"
    and "timeline_events lib fs shipment_id = out"
  using assms by (simp_all add: analyze_shipment_timeline_def timeline_events_def)


lemma analyze_no_error_iff:
  "jget ''error'' (analyze_shipment_timeline lib fs shipment_id) = None \<longleftrightarrow>
     (\<exists>out. fuse lib fs shipment_id = Inr out)"
  by (cases "fuse lib fs shipment_id") (simp_all add: analyze_error analyze_ok)


lemma demo_timeline:
  "map (\<lambda>e. (ev_timestamp e, ev_source e)) (timeline_events demo_lib demo_dir ''SHP-001-1'') =
     [(CStr ''2024-01-04T08:00'', ''logistics_shipments''),
      (CStr ''2024-01-04T08:00'', ''sensor_alerts''),
      (CStr ''2024-01-05T10:00'', ''sensor_alerts''),
      (CStr ''2024-01-06T09:00'', ''wms_quarantine_log'')]"
  by code_simp

lemma demo_collected:
  "map (\<lambda>e. (ev_timestamp e, ev_source e)) (collect_events demo_lib demo_dir ''SHP-001-1'') =
     [(CStr ''2024-01-04T08:00'', ''logistics_shipments''),
      (CStr ''2024-01-05T10:00'', ''sensor_alerts''),
      (CStr ''2024-01-04T08:00'', ''sensor_alerts''),
      (CStr ''2024-01-06T09:00'', ''wms_quarantine_log''),
      (CNone, ''wms_goods_movements'')]"
  by code_simp








lemma py_eq_CStr: "py_eq v (CStr s) \<longleftrightarrow> v = CStr s"
  by (cases v) (auto simp: py_eq_def)


lemma zero_dir_events:
  "map ev_data (collect_events demo_lib zero_dir ''SHP-7'') =
     [[(''shipment_id'', CStr ''SHP-7''), (''timestamp'', CInt 0),
       (''dispatch_dt'', CStr ''2024-02-01T06:00'')]]"
  by code_simp



text \<open>
  Claim C6. For every event the fuser collects, and so for every event of the returned
  timeline, the owner follows the first rule that applies to the record: a
  \<^verbatim>\<open>supplier_id\<close> field gives \<open>Carrier_\<close> followed by the text of its value; otherwise a
  \<^verbatim>\<open>decision\<close> field gives \<open>QA_Team\<close>; otherwise a \<^verbatim>\<open>status\<close> field equal to
  \<open>Quarantined\<close> gives \<open>QA_Team\<close>; otherwise the owner is \<open>Unknown\<close>.
\<close>

theorem owner_first_rule:
  assumes "e \<in> set (collect_events lib fs shipment_id) \<or>
           e \<in> set (timeline_events lib fs shipment_id)"
  shows "ev_owner e =
           Some (if map_of (ev_data e) ''supplier_id'' \<noteq> None
                 then ''Carrier_'' @ py_str lib (field_value (ev_data e) ''supplier_id'')
                 else if map_of (ev_data e) ''decision'' \<noteq> None then ''QA_Team''
                 else if map_of (ev_data e) ''status'' = Some (CStr ''Quarantined'') then ''QA_Team''
                 else ''Unknown'')"
proof -
  from assms have "e \<in> set (collect_events lib fs shipment_id)"
    using timeline_events_subset by blast
  from collected_event [OF this] obtain source_name r
    where "e = make_event lib source_name r" by blast
  then have "ev_owner e = Some (resolve_owner lib (ev_data e))"
    by (simp add: make_event_def)
  then show ?thesis
    by (auto simp: resolve_owner_def field_value_def py_eq_CStr split: option.splits)
qed

theorem owner_first_rule_witness:
  "map ev_owner (timeline_events demo_lib demo_dir ''SHP-001-1'') =
     map (\<lambda>e. Some (if map_of (ev_data e) ''supplier_id'' \<noteq> None
                 then ''Carrier_'' @ py_str demo_lib (field_value (ev_data e) ''supplier_id'')
                 else if map_of (ev_data e) ''decision'' \<noteq> None then ''QA_Team''
                 else if map_of (ev_data e) ''status'' = Some (CStr ''Quarantined'') then ''QA_Team''
                 else ''Unknown'')) (timeline_events demo_lib demo_dir ''SHP-001-1'')
   \<and> map ev_owner (timeline_events demo_lib demo_dir ''SHP-001-1'') =
       [Some ''Carrier_SUP-7'', Some ''Unknown'', Some ''Unknown'', Some ''QA_Team'']"
proof -
  have "map ev_owner (timeline_events demo_lib demo_dir ''SHP-001-1'') =
     map (\<lambda>e. Some (if map_of (ev_data e) ''supplier_id'' \<noteq> None
                 then ''Carrier_'' @ py_str demo_lib (field_value (ev_data e) ''supplier_id'')
                 else if map_of (ev_data e) ''decision'' \<noteq> None then ''QA_Team''
                 else if map_of (ev_data e) ''status'' = Some (CStr ''Quarantined'') then ''QA_Team''
                 else ''Unknown'')) (timeline_events demo_lib demo_dir ''SHP-001-1'')"
    by (rule map_cong [OF refl]) (rule owner_first_rule, rule disjI2)
  moreover have "map ev_owner (timeline_events demo_lib demo_dir ''SHP-001-1'') =
       [Some ''Carrier_SUP-7'', Some ''Unknown'', Some ''Unknown'', Some ''QA_Team'']"
    by code_simp
  ultimately show ?thesis by (rule conjI)
qed

end
